theory Spec2Isabelle
  imports Main
begin

section \<open>Python values, dictionaries and exceptions\<close>

text \<open>
  The probe generator passes specifications and annotation rows around as Python
  dictionaries with string keys. The values that occur are strings (gene names, sides,
  strands, chromosome names, the glob \<^verbatim>\<open>'*'\<close>), integers (base counts, feature
  numbers) and tuples (a feature is \<^verbatim>\<open>('exon', 3)\<close>). Python's \<^verbatim>\<open>==\<close> on
  these values is structural equality, which is HOL's \<open>=\<close> on \<open>pyval\<close>.
\<close>

datatype pyval = PStr string | PInt int | PTuple "pyval list"

type_synonym pydict = "string \<rightharpoonup> pyval"

text \<open>
  Every \<^verbatim>\<open>raise\<close> of the source, and every exception the interpreter raises for
  the operations the source performs, is a value. \<open>InterfaceError\<close> carries the key
  named by the \<^verbatim>\<open>KeyError\<close> it was raised from (\<open>None\<close> for a bare
  \<^verbatim>\<open>raise InterfaceError\<close>); \<open>NoFeatureError\<close> carries its message.
\<close>

datatype error =
    InterfaceError "string option"
  | NoFeatureError string
  | KeyError string
  | TypeError
  | ValueError
  | AttributeError
  | InvalidStatement

definition and_then :: "error + 'a \<Rightarrow> ('a \<Rightarrow> error + 'b) \<Rightarrow> error + 'b" where
  "and_then r f = (case r of Inl e \<Rightarrow> Inl e | Inr x \<Rightarrow> f x)"

text \<open>\<^verbatim>\<open>d[k]\<close>: a missing key raises \<^verbatim>\<open>KeyError\<close>.\<close>

definition getitem :: "pydict \<Rightarrow> string \<Rightarrow> error + pyval" where
  "getitem d k = (case d k of None \<Rightarrow> Inl (KeyError k) | Some v \<Rightarrow> Inr v)"

text \<open>
  \<^verbatim>\<open>try: ... except KeyError as error: raise InterfaceError(error)\<close>: only a
  \<^verbatim>\<open>KeyError\<close> is caught, every other exception propagates.
\<close>

definition except_KeyError :: "error + 'a \<Rightarrow> error + 'a" where
  "except_KeyError r =
     (case r of Inl (KeyError k) \<Rightarrow> Inl (InterfaceError (Some k)) | _ \<Rightarrow> r)"

text \<open>
  \<^verbatim>\<open>a, b = v\<close>: a tuple or a string of length two unpacks (a string into its two
  one-character strings), any other length raises \<^verbatim>\<open>ValueError\<close>, an integer is
  not iterable and raises \<^verbatim>\<open>TypeError\<close>.
\<close>

definition unpack2 :: "pyval \<Rightarrow> error + (pyval \<times> pyval)" where
  "unpack2 v =
     (case v of
        PTuple [a, b] \<Rightarrow> Inr (a, b)
      | PTuple _ \<Rightarrow> Inl ValueError
      | PStr [a, b] \<Rightarrow> Inr (PStr [a], PStr [b])
      | PStr _ \<Rightarrow> Inl ValueError
      | PInt _ \<Rightarrow> Inl TypeError)"

text \<open>\<^verbatim>\<open>str(n)\<close> of an integer: its decimal digits, with a minus sign when negative.\<close>

fun str_nat :: "nat \<Rightarrow> string" where
  "str_nat n =
     (if n < 10 then [''0123456789'' ! n]
      else str_nat (n div 10) @ [''0123456789'' ! (n mod 10)])"

declare str_nat.simps [simp del]

definition str_int :: "int \<Rightarrow> string" where
  "str_int i = (if i < 0 then CHR ''-'' # str_nat (nat (- i)) else str_nat (nat i))"

text \<open>
  \<^verbatim>\<open>s.lstrip(chars)\<close>: drops leading characters for as long as they occur in
  \<^verbatim>\<open>chars\<close>, which Python reads as a set of characters.
\<close>

definition lstrip :: "string \<Rightarrow> string \<Rightarrow> string" where
  "lstrip s chars = dropWhile (\<lambda>c. c \<in> set chars) s"

section \<open>exon\_coordinate: the coordinate resolver\<close>

text \<open>The dictionary \<^verbatim>\<open>_positional_sequence_range\<close> returns.\<close>

record coordinate =
  chromosome1 :: string
  start1 :: int
  end1 :: int
  chromosome2 :: string
  start2 :: int
  end2 :: int
  rc_side_1 :: bool
  rc_side_2 :: bool

definition WARNING_MESSAGE :: string where
  "WARNING_MESSAGE =
     ''WARNING: probes generated using the '->' syntax may not have the '' @ [CHR 0x0A] @
     ''expected value when the end of the first exon is not joined to the '' @ [CHR 0x0A] @
     ''start of the second.'' @ [CHR 0x0A, CHR 0x0A] @
     ''Double-check that your probe statments are specified correctly.'' @ [CHR 0x0A]"

definition is_leftmost_side :: "pyval \<Rightarrow> pyval \<Rightarrow> bool" where
  "is_leftmost_side side strand = ((side = PStr ''start'') = (strand = PStr ''+''))"

text \<open>
  \<^verbatim>\<open>start + bases\<close> and \<^verbatim>\<open>end - bases\<close> are integer arithmetic when
  \<^verbatim>\<open>bases\<close> is an integer; a string or a tuple there raises \<^verbatim>\<open>TypeError\<close>.
\<close>

definition get_base_pair_range ::
  "pyval \<Rightarrow> int \<Rightarrow> int \<Rightarrow> pyval \<Rightarrow> pyval \<Rightarrow> error + (int \<times> int)" where
  "get_base_pair_range bases start end' side strand =
     (if is_leftmost_side side strand then
        (case bases of PInt b \<Rightarrow> Inr (start + 1, start + b) | _ \<Rightarrow> Inl TypeError)
      else
        (case bases of PInt b \<Rightarrow> Inr (end' - b + 1, end') | _ \<Rightarrow> Inl TypeError))"

text \<open>
  \<^verbatim>\<open>positions[index-1]\<close>: Python counts a negative subscript from the end of the
  list and raises \<^verbatim>\<open>IndexError\<close> outside \<open>-len \<le> index-1 < len\<close>; the source
  turns that into \<^verbatim>\<open>NoFeatureError\<close> with the formatted message. Subtracting one
  from a string or a tuple raises \<^verbatim>\<open>TypeError\<close>.
\<close>

definition no_feature_message :: "int \<Rightarrow> nat \<Rightarrow> string" where
  "no_feature_message number length' =
     ''specification requires feature 'exon'['' @ str_int number @
     ''], but row specifies only '' @ str_nat length' @ '' 'exon'(s)''"

definition get_exon :: "(int \<times> int) list \<Rightarrow> pyval \<Rightarrow> error + (int \<times> int)" where
  "get_exon positions index =
     (case index of
        PInt i \<Rightarrow>
          (let n = int (length positions);
               j = i - 1;
               k = (if j < 0 then n + j else j)
           in if 0 \<le> k \<and> k < n then Inr (positions ! nat k)
              else Inl (NoFeatureError (no_feature_message i (length positions))))
      | _ \<Rightarrow> Inl TypeError)"

text \<open>
  \<^verbatim>\<open>annotation.exons\<close> belongs to a module outside the resolver; it is the
  parameter \<open>exons\<close>: given a row it returns the row's exon intervals in transcription
  order, or fails.
\<close>

definition get_base_position_per_row ::
  "(pydict \<Rightarrow> error + (int \<times> int) list) \<Rightarrow> pyval \<Rightarrow> pyval \<Rightarrow> pyval \<Rightarrow> pydict
     \<Rightarrow> error + (int \<times> int)" where
  "get_base_position_per_row exons feature bases side row =
     and_then (unpack2 feature) (\<lambda>(_, which_exon).
     and_then (except_KeyError (getitem row ''strand'')) (\<lambda>strand.
     and_then (exons row) (\<lambda>exon_positions.
     and_then (get_exon exon_positions which_exon) (\<lambda>(exon_start, exon_end).
       if bases = PStr ''*'' then Inr (exon_start, exon_end)
       else get_base_pair_range bases exon_start exon_end side strand))))"

definition get_base_positions ::
  "(pydict \<Rightarrow> error + (int \<times> int) list) \<Rightarrow> pydict \<Rightarrow> pydict \<Rightarrow> pydict
     \<Rightarrow> error + (int \<times> int \<times> int \<times> int)" where
  "get_base_positions exons specification row_1 row_2 =
     and_then (except_KeyError (
       and_then (getitem specification ''feature1'') (\<lambda>first_feature.
       and_then (getitem specification ''bases1'') (\<lambda>first_bases.
       and_then (getitem specification ''side1'') (\<lambda>first_side.
       and_then (getitem specification ''feature2'') (\<lambda>second_feature.
       and_then (getitem specification ''bases2'') (\<lambda>second_bases.
       and_then (getitem specification ''side2'') (\<lambda>second_side.
         Inr (first_feature, first_bases, first_side,
              second_feature, second_bases, second_side)))))))))
       (\<lambda>(first_feature, first_bases, first_side,
          second_feature, second_bases, second_side).
     and_then (get_base_position_per_row exons first_feature first_bases first_side row_1)
       (\<lambda>(start_1, end_1).
     and_then (get_base_position_per_row exons second_feature second_bases second_side row_2)
       (\<lambda>(start_2, end_2).
         Inr (start_1, end_1, start_2, end_2))))"

text \<open>
  \<^verbatim>\<open>row['chrom'].lstrip('chr')\<close> for each row, in order: a row without the key
  raises \<^verbatim>\<open>KeyError\<close>, a value that is not a string has no \<^verbatim>\<open>lstrip\<close>.
\<close>

fun get_chromosomes :: "pydict list \<Rightarrow> error + string list" where
  "get_chromosomes [] = Inr []"
| "get_chromosomes (row # rows) =
     and_then (getitem row ''chrom'') (\<lambda>chrom.
       case chrom of
         PStr s \<Rightarrow> and_then (get_chromosomes rows) (\<lambda>rest. Inr (lstrip s ''chr'' # rest))
       | _ \<Rightarrow> Inl AttributeError)"

definition get_rev_comp_flags :: "pydict \<Rightarrow> pydict \<Rightarrow> pydict \<Rightarrow> error + (bool \<times> bool)" where
  "get_rev_comp_flags specification row_1 row_2 =
     and_then (getitem specification ''side1'') (\<lambda>side1.
     and_then (getitem specification ''side2'') (\<lambda>side2.
     and_then (getitem row_1 ''strand'') (\<lambda>strand1.
     and_then (getitem row_2 ''strand'') (\<lambda>strand2.
       Inr ((side1, strand1) \<in> set [(PStr ''start'', PStr ''+''), (PStr ''end'', PStr ''-'')],
            (side2, strand2) \<in> set [(PStr ''start'', PStr ''-''), (PStr ''end'', PStr ''+'')])))))"

definition positional_sequence_range ::
  "(pydict \<Rightarrow> error + (int \<times> int) list) \<Rightarrow> pydict \<Rightarrow> pydict \<Rightarrow> pydict
     \<Rightarrow> error + coordinate" where
  "positional_sequence_range exons specification row_1 row_2 =
     and_then (get_chromosomes [row_1, row_2]) (\<lambda>chromosomes.
     and_then (get_base_positions exons specification row_1 row_2)
       (\<lambda>(left_start, left_end, right_start, right_end).
     and_then (get_rev_comp_flags specification row_1 row_2) (\<lambda>(rc_left, rc_right).
       Inr \<lparr>chromosome1 = chromosomes ! 0,
            start1 = left_start,
            end1 = left_end,
            chromosome2 = chromosomes ! 1,
            start2 = right_start,
            end2 = right_end,
            rc_side_1 = rc_left,
            rc_side_2 = rc_right\<rparr>)))"

text \<open>
  The keyword arguments of \<^verbatim>\<open>dict(specification, gene1=specification['gene2'], ...)\<close>
  are evaluated in the order they are written, so the first missing key in that order is the
  one the \<^verbatim>\<open>KeyError\<close> names.
\<close>

definition flip_specification :: "pydict \<Rightarrow> error + pydict" where
  "flip_specification specification =
     except_KeyError (
       and_then (getitem specification ''gene2'') (\<lambda>g2.
       and_then (getitem specification ''gene1'') (\<lambda>g1.
       and_then (getitem specification ''feature2'') (\<lambda>f2.
       and_then (getitem specification ''feature1'') (\<lambda>f1.
       and_then (getitem specification ''side2'') (\<lambda>s2.
       and_then (getitem specification ''side1'') (\<lambda>s1.
       and_then (getitem specification ''bases2'') (\<lambda>b2.
       and_then (getitem specification ''bases1'') (\<lambda>b1.
         Inr (specification
               (''gene1'' \<mapsto> g2, ''gene2'' \<mapsto> g1,
                ''feature1'' \<mapsto> f2, ''feature2'' \<mapsto> f1,
                ''side1'' \<mapsto> s2, ''side2'' \<mapsto> s1,
                ''bases1'' \<mapsto> b2, ''bases2'' \<mapsto> b1)))))))))))"

text \<open>
  \<^verbatim>\<open>_check_read_through_spec\<close> writes to \<^verbatim>\<open>sys.stderr\<close>; the model returns
  what it wrote, as the list of strings printed. The \<^verbatim>\<open>and\<close> is short-circuit:
  \<^verbatim>\<open>specification['side2']\<close> is only read when side 1 is \<^verbatim>\<open>'end'\<close>.
\<close>

definition check_read_through_spec :: "pydict \<Rightarrow> error + string list" where
  "check_read_through_spec specification =
     (case specification ''side1'' of
        None \<Rightarrow> Inl (InterfaceError None)
      | Some side1 \<Rightarrow>
          if side1 = PStr ''end'' then
            (case specification ''side2'' of
               None \<Rightarrow> Inl (InterfaceError None)
             | Some side2 \<Rightarrow>
                 if side2 = PStr ''start'' then Inr [] else Inr [WARNING_MESSAGE])
          else Inr [WARNING_MESSAGE])"

text \<open>
  The resolver's entry points return the text written to the diagnostic stream together
  with the result or the exception.
\<close>

definition read_through_sequence_range ::
  "(pydict \<Rightarrow> error + (int \<times> int) list) \<Rightarrow> pydict \<Rightarrow> pydict \<Rightarrow> pydict
     \<Rightarrow> string list \<times> (error + coordinate)" where
  "read_through_sequence_range exons specification row_1 row_2 =
     (case check_read_through_spec specification of
        Inl e \<Rightarrow> ([], Inl e)
      | Inr stderr \<Rightarrow>
          (stderr,
           if row_1 ''strand'' = Some (PStr ''+'') then
             positional_sequence_range exons specification row_1 row_2
           else if row_1 ''strand'' = Some (PStr ''-'') then
             and_then (flip_specification specification) (\<lambda>flipped.
               positional_sequence_range exons flipped row_2 row_1)
           else Inl (InterfaceError None)))"

definition sequence_range ::
  "(pydict \<Rightarrow> error + (int \<times> int) list) \<Rightarrow> pydict \<Rightarrow> pydict \<Rightarrow> pydict
     \<Rightarrow> string list \<times> (error + coordinate)" where
  "sequence_range exons specification row_1 row_2 =
     (if specification ''separator'' = Some (PStr ''/'') then
        ([], positional_sequence_range exons specification row_1 row_2)
      else if specification ''separator'' = Some (PStr ''->'') then
        read_through_sequence_range exons specification row_1 row_2
      else ([], Inl (InterfaceError None)))"

section \<open>gene\_snp\_probe: probes for a nucleotide change in a coding sequence\<close>

subsection \<open>The statement pattern\<close>

text \<open>
  \<^verbatim>\<open>_STATEMENT_REGEX\<close> is matched with \<^verbatim>\<open>re.match\<close>: anchored at the start of the
  statement, not at its end. Every repetition in it is followed by a token that none of the
  repeated characters can begin, so the greedy match is the only one and the pattern is a
  left-to-right scanner. Characters are the code points below 256; \<^verbatim>\<open>\s\<close> is Python's
  Unicode whitespace among them, \<^verbatim>\<open>[0-9]\<close> the ASCII digits, and \<^verbatim>\<open>.\<close> any character
  but the newline.
\<close>

definition is_space :: "char \<Rightarrow> bool" where
  "is_space c =
     (let n = (of_char c :: nat)
      in (9 \<le> n \<and> n \<le> 13) \<or> (28 \<le> n \<and> n \<le> 32) \<or> n = 133 \<or> n = 160)"

definition is_digit :: "char \<Rightarrow> bool" where
  "is_digit c = (let n = (of_char c :: nat) in 48 \<le> n \<and> n \<le> 57)"

definition is_gene_char :: "char \<Rightarrow> bool" where
  "is_gene_char c =
     (let n = (of_char c :: nat)
      in (97 \<le> n \<and> n \<le> 122) \<or> (65 \<le> n \<and> n \<le> 90) \<or> (48 \<le> n \<and> n \<le> 57) \<or>
         c \<in> set ''_./-'')"

definition is_base :: "char \<Rightarrow> bool" where
  "is_base c = (c \<in> set ''ACGTacgt'')"

definition skip_spaces :: "string \<Rightarrow> string" where
  "skip_spaces s = dropWhile is_space s"

definition literal :: "char \<Rightarrow> string \<Rightarrow> string option" where
  "literal c s = (case s of [] \<Rightarrow> None | x # rest \<Rightarrow> if x = c then Some rest else None)"

definition one_or_more :: "(char \<Rightarrow> bool) \<Rightarrow> string \<Rightarrow> (string \<times> string) option" where
  "one_or_more p s =
     (if takeWhile p s = [] then None else Some (takeWhile p s, dropWhile p s))"

definition one_char :: "(char \<Rightarrow> bool) \<Rightarrow> string \<Rightarrow> (string \<times> string) option" where
  "one_char p s = (case s of [] \<Rightarrow> None | x # rest \<Rightarrow> if p x then Some ([x], rest) else None)"

text \<open>
  The last group \<^verbatim>\<open>(--.*|\s*)\<close> comes after a \<^verbatim>\<open>\s*\<close> that has taken all the
  whitespace: it is the rest of the line when that starts with \<^verbatim>\<open>--\<close>, and empty
  otherwise.
\<close>

definition comment_group :: "string \<Rightarrow> string" where
  "comment_group s =
     (case s of
        a # b # rest \<Rightarrow>
          if a = CHR ''-'' \<and> b = CHR ''-''
          then a # b # takeWhile (\<lambda>c. c \<noteq> CHR 0x0A) rest
          else []
      | _ \<Rightarrow> [])"

definition STATEMENT_REGEX_match ::
  "string \<Rightarrow> (string \<times> string \<times> string \<times> string \<times> string \<times> string) option" where
  "STATEMENT_REGEX_match statement =
     Option.bind (one_or_more is_gene_char (skip_spaces statement)) (\<lambda>(gene, s1).
     Option.bind (literal CHR '':'' (skip_spaces s1)) (\<lambda>s2.
     Option.bind (literal CHR ''c'' (skip_spaces s2)) (\<lambda>s3.
     Option.bind (literal CHR ''.'' s3) (\<lambda>s4.
     Option.bind (one_or_more is_digit s4) (\<lambda>(base, s5).
     Option.bind (one_char is_base (skip_spaces s5)) (\<lambda>(reference, s6).
     Option.bind (literal CHR ''>'' (skip_spaces s6)) (\<lambda>s7.
     Option.bind (one_char is_base (skip_spaces s7)) (\<lambda>(mutation, s8).
     Option.bind (literal CHR ''/'' (skip_spaces s8)) (\<lambda>s9.
     Option.bind (one_or_more is_digit (skip_spaces s9)) (\<lambda>(bases, s10).
       Some (gene, base, reference, mutation, bases,
             comment_group (skip_spaces s10))))))))))))"

text \<open>\<^verbatim>\<open>int(s)\<close> on a string of ASCII digits.\<close>

definition int_of_digits :: "string \<Rightarrow> int" where
  "int_of_digits ds = foldl (\<lambda>acc d. 10 * acc + (of_char d - 48)) 0 ds"

subsection \<open>Specifications, transcripts and probes\<close>

text \<open>
  \<^verbatim>\<open>_parse\<close> returns a dictionary with exactly six keys, each of a fixed type; it is
  the record \<open>partial_specification\<close>. \<^verbatim>\<open>dict(partial_spec, chromosome=...,
  transcript=..., index=...)\<close> adds three more: the record \<open>gene_snp_specification\<close>.
\<close>

record partial_specification =
  gene :: string
  base :: int
  reference :: string
  mutation :: string
  bases :: int
  comment :: string

text \<open>
  Modelled from the spec: the transcript objects that \<^verbatim>\<open>annotation.lookup_gene\<close>
  returns are outside the probe module. Each exposes its strand, chromosome and name, and
  \<^verbatim>\<open>nucleotide_index(position)\<close>, which returns an integer or fails with an
  out-of-range error; \<open>Inl\<close> carries \<^verbatim>\<open>str\<close> of that error.
\<close>

record transcript =
  plus_strand :: bool
  chromosome :: string
  name :: string
  nucleotide_index :: "int \<Rightarrow> string + int"

record gene_snp_specification = partial_specification +
  chromosome :: string
  transcript :: string
  index :: int

datatype probe = GeneSnpProbe gene_snp_specification

definition parse :: "string \<Rightarrow> error + partial_specification" where
  "parse statement =
     (case STATEMENT_REGEX_match statement of
        None \<Rightarrow> Inl InvalidStatement
      | Some (gene', base', reference', mutation', bases', comment') \<Rightarrow>
          Inr \<lparr>gene = gene', base = int_of_digits base', reference = reference',
               mutation = mutation', bases = int_of_digits bases', comment = comment'\<rparr>)"

subsection \<open>explode\<close>

text \<open>
  The loop of \<^verbatim>\<open>explode\<close> carries four things from one transcript to the next: the
  partial specification (whose \<^verbatim>\<open>mutation\<close> it overwrites for every minus-strand
  transcript), the set of coordinates already seen, the probes collected, and what has been
  printed to \<^verbatim>\<open>sys.stderr\<close> (\<^verbatim>\<open>print\<close> ends each line with a newline).
  \<^verbatim>\<open>reverse_complement\<close> of the sequence module and the built-in \<^verbatim>\<open>repr\<close> are
  parameters, and so is \<^verbatim>\<open>annotation.lookup_gene\<close>.
\<close>

record explode_state =
  partial_spec :: partial_specification
  cached_coordinates :: "(string \<times> int) set"
  probes :: "probe list"
  stderr :: "string list"

definition explode_step ::
  "(string \<Rightarrow> string) \<Rightarrow> (string \<Rightarrow> string) \<Rightarrow> string \<Rightarrow> transcript \<Rightarrow> explode_state
     \<Rightarrow> explode_state" where
  "explode_step reverse_complement repr statement txt st =
     (let base' = (if plus_strand txt then base (partial_spec st)
                   else base (partial_spec st) - 2);
          partial_spec' =
            (if plus_strand txt then partial_spec st
             else (partial_spec st)
                    \<lparr>mutation := reverse_complement (mutation (partial_spec st))\<rparr>)
      in case nucleotide_index txt base' of
           Inl error \<Rightarrow>
             st\<lparr>partial_spec := partial_spec',
                stderr := stderr st @
                  [error @ '' in statement: '' @ repr statement @ [CHR 0x0A]]\<rparr>
         | Inr index' \<Rightarrow>
             if (transcript.chromosome txt, index') \<notin> cached_coordinates st then
               st\<lparr>partial_spec := partial_spec',
                  cached_coordinates :=
                    insert (transcript.chromosome txt, index') (cached_coordinates st),
                  probes := probes st @
                    [GeneSnpProbe
                       \<lparr>gene = gene partial_spec', base = base partial_spec',
                        reference = reference partial_spec',
                        mutation = mutation partial_spec',
                        bases = bases partial_spec', comment = comment partial_spec',
                        chromosome = transcript.chromosome txt,
                        transcript = name txt,
                        index = index'\<rparr>]\<rparr>
             else st\<lparr>partial_spec := partial_spec'\<rparr>)"

fun explode_loop ::
  "(string \<Rightarrow> string) \<Rightarrow> (string \<Rightarrow> string) \<Rightarrow> string \<Rightarrow> transcript list
     \<Rightarrow> explode_state \<Rightarrow> explode_state" where
  "explode_loop reverse_complement repr statement [] st = st"
| "explode_loop reverse_complement repr statement (txt # transcripts) st =
     explode_loop reverse_complement repr statement transcripts
       (explode_step reverse_complement repr statement txt st)"

definition explode ::
  "(string \<Rightarrow> 'a list \<Rightarrow> transcript list) \<Rightarrow> (string \<Rightarrow> string) \<Rightarrow> (string \<Rightarrow> string)
     \<Rightarrow> string \<Rightarrow> 'a list option \<Rightarrow> string list \<times> (error + probe list)" where
  "explode lookup_gene reverse_complement repr statement genome_annotation =
     (let genome_annotation' = (case genome_annotation of None \<Rightarrow> [] | Some a \<Rightarrow> a)
      in case parse statement of
           Inl e \<Rightarrow> ([], Inl e)
         | Inr parsed \<Rightarrow>
             (let transcripts = lookup_gene (gene parsed) genome_annotation';
                  final = explode_loop reverse_complement repr statement transcripts
                            \<lparr>partial_spec = parsed, cached_coordinates = {},
                             probes = [], stderr = []\<rparr>
              in (stderr final, Inr (probes final))))"

section \<open>Auxiliary predicates and example inputs\<close>

text \<open>Whether a result is the exception \<^verbatim>\<open>NoFeatureError\<close>, whatever its message.\<close>

definition raises_NoFeatureError :: "error + 'a \<Rightarrow> bool" where
  "raises_NoFeatureError r = (case r of Inl (NoFeatureError _) \<Rightarrow> True | _ \<Rightarrow> False)"

text \<open>
  Example inputs, after the fixtures of the resolver's tests: a specification
  \<^verbatim>\<open>ABC#exon[1] -20 / DEF#exon[2] +30\<close>, a row on each strand, and an exon
  accessor that gives every row the exons \<open>(0, 100]\<close> and \<open>(200, 300]\<close>.
\<close>

definition example_spec :: pydict where
  "example_spec =
     [''gene1'' \<mapsto> PStr ''ABC'', ''feature1'' \<mapsto> PTuple [PStr ''exon'', PInt 1],
      ''side1'' \<mapsto> PStr ''end'', ''bases1'' \<mapsto> PInt 20,
      ''gene2'' \<mapsto> PStr ''DEF'', ''feature2'' \<mapsto> PTuple [PStr ''exon'', PInt 2],
      ''side2'' \<mapsto> PStr ''start'', ''bases2'' \<mapsto> PInt 30,
      ''separator'' \<mapsto> PStr ''/'']"

definition row_plus :: pydict where
  "row_plus = [''chrom'' \<mapsto> PStr ''chr1'', ''strand'' \<mapsto> PStr ''+'']"

definition row_minus :: pydict where
  "row_minus = [''chrom'' \<mapsto> PStr ''chrX'', ''strand'' \<mapsto> PStr ''-'']"

definition two_exons :: "pydict \<Rightarrow> error + (int \<times> int) list" where
  "two_exons row = Inr [(0, 100), (200, 300)]"

text \<open>
  The specification with the gene, feature, side and bases fields of sides 1 and 2
  exchanged and every other field kept, written after the specification's wording of the
  read-through rule; \<open>flip_specification\<close> is compared with it below. \<open>side_fields\<close> are
  the keys \<^verbatim>\<open>_flip_specification\<close> reads, in the order it reads them, and
  \<open>other_side\<close> maps each of them to its counterpart on the other side.
\<close>

definition exchange_sides :: "pydict \<Rightarrow> pydict" where
  "exchange_sides specification =
     specification
       (''gene1'' := specification ''gene2'', ''gene2'' := specification ''gene1'',
        ''feature1'' := specification ''feature2'', ''feature2'' := specification ''feature1'',
        ''side1'' := specification ''side2'', ''side2'' := specification ''side1'',
        ''bases1'' := specification ''bases2'', ''bases2'' := specification ''bases1'')"

definition side_fields :: "string list" where
  "side_fields =
     [''gene2'', ''gene1'', ''feature2'', ''feature1'', ''side2'', ''side1'', ''bases2'', ''bases1'']"

definition other_side :: "string \<Rightarrow> string" where
  "other_side k =
     (if k = ''gene1'' then ''gene2'' else if k = ''gene2'' then ''gene1''
      else if k = ''feature1'' then ''feature2'' else if k = ''feature2'' then ''feature1''
      else if k = ''side1'' then ''side2'' else if k = ''side2'' then ''side1''
      else if k = ''bases1'' then ''bases2'' else if k = ''bases2'' then ''bases1''
      else k)"

text \<open>The example specification as a read-through statement.\<close>

definition example_read_through :: pydict where
  "example_read_through = example_spec(''separator'' \<mapsto> PStr ''->'')"

text \<open>
  Example inputs for \<^verbatim>\<open>explode\<close>: three transcripts, of which the second is too
  short for the requested base; a lookup that returns the whole annotation; the
  reverse complement of a sequence of bases; and \<^verbatim>\<open>repr\<close> of a string without quotes
  or escapes.
\<close>

definition transcript_NM_1 :: transcript where
  "transcript_NM_1 =
     \<lparr>plus_strand = True, chromosome = ''1'', name = ''NM_1'',
      nucleotide_index = (\<lambda>b. Inr (1000 + b))\<rparr>"

definition transcript_NM_2 :: transcript where
  "transcript_NM_2 =
     \<lparr>plus_strand = True, chromosome = ''2'', name = ''NM_2'',
      nucleotide_index = (\<lambda>b. Inl ''base 5 is out of range'')\<rparr>"

definition transcript_NM_3 :: transcript where
  "transcript_NM_3 =
     \<lparr>plus_strand = False, chromosome = ''3'', name = ''NM_3'',
      nucleotide_index = (\<lambda>b. Inr (3000 + b))\<rparr>"

definition example_lookup_gene :: "string \<Rightarrow> transcript list \<Rightarrow> transcript list" where
  "example_lookup_gene gene_name genome_annotation = genome_annotation"

definition example_repr :: "string \<Rightarrow> string" where
  "example_repr s = [CHR 0x27] @ s @ [CHR 0x27]"

definition example_reverse_complement :: "string \<Rightarrow> string" where
  "example_reverse_complement s =
     rev (map (\<lambda>c. if c = CHR ''A'' then CHR ''T'' else if c = CHR ''T'' then CHR ''A''
                    else if c = CHR ''C'' then CHR ''G'' else if c = CHR ''G'' then CHR ''C''
                    else c) s)"

section \<open>Basic facts\<close>

lemma and_then_Inl [simp]: "and_then (Inl e) f = Inl e"
  by (simp add: and_then_def)

lemma and_then_Inr [simp]: "and_then (Inr x) f = f x"
  by (simp add: and_then_def)

lemma getitem_Some [simp]: "d k = Some v \<Longrightarrow> getitem d k = Inr v"
  by (simp add: getitem_def)

lemma getitem_None [simp]: "d k = None \<Longrightarrow> getitem d k = Inl (KeyError k)"
  by (simp add: getitem_def)

lemma except_KeyError_Inr [simp]: "except_KeyError (Inr x) = Inr x"
  by (simp add: except_KeyError_def)

lemma except_KeyError_KeyError [simp]:
  "except_KeyError (Inl (KeyError k)) = Inl (InterfaceError (Some k))"
  by (simp add: except_KeyError_def)

lemma unpack2_pair [simp]: "unpack2 (PTuple [a, b]) = Inr (a, b)"
  by (simp add: unpack2_def)

lemma get_exon_in_range:
  "1 \<le> n \<Longrightarrow> n \<le> int (length positions) \<Longrightarrow>
     get_exon positions (PInt n) = Inr (positions ! nat (n - 1))"
  by (simp add: get_exon_def Let_def)

lemma get_exon_past_end:
  "int (length positions) < n \<Longrightarrow>
     get_exon positions (PInt n) =
       Inl (NoFeatureError (no_feature_message n (length positions)))"
  by (simp add: get_exon_def Let_def)

lemma per_row_resolved:
  assumes "row ''strand'' = Some strand"
    and "exons row = Inr positions"
    and "get_exon positions which_exon = Inr (exon_start, exon_end)"
  shows "get_base_position_per_row exons (PTuple [kind, which_exon]) nbases side row =
           (if nbases = PStr ''*'' then Inr (exon_start, exon_end)
            else get_base_pair_range nbases exon_start exon_end side strand)"
  using assms by (simp add: get_base_position_per_row_def)

lemma per_row_no_feature:
  assumes "row ''strand'' = Some strand"
    and "exons row = Inr positions"
    and "get_exon positions which_exon = Inl e"
  shows "get_base_position_per_row exons (PTuple [kind, which_exon]) nbases side row = Inl e"
  using assms by (simp add: get_base_position_per_row_def)

lemma and_then_eq_Inr: "and_then r f = Inr y \<longleftrightarrow> (\<exists>x. r = Inr x \<and> f x = Inr y)"
  by (cases r) simp_all

lemma get_chromosomes_pair:
  "row_1 ''chrom'' = Some (PStr c1) \<Longrightarrow> row_2 ''chrom'' = Some (PStr c2) \<Longrightarrow>
     get_chromosomes [row_1, row_2] = Inr [lstrip c1 ''chr'', lstrip c2 ''chr'']"
  by simp

lemma get_base_positions_fields:
  assumes "spec ''feature1'' = Some f1" and "spec ''bases1'' = Some b1"
    and "spec ''side1'' = Some s1" and "spec ''feature2'' = Some f2"
    and "spec ''bases2'' = Some b2" and "spec ''side2'' = Some s2"
  shows "get_base_positions exons spec row_1 row_2 =
           and_then (get_base_position_per_row exons f1 b1 s1 row_1) (\<lambda>(start_1, end_1).
           and_then (get_base_position_per_row exons f2 b2 s2 row_2) (\<lambda>(start_2, end_2).
             Inr (start_1, end_1, start_2, end_2)))"
  using assms by (simp add: get_base_positions_def)

lemma get_rev_comp_flags_fields:
  assumes "spec ''side1'' = Some side1" and "spec ''side2'' = Some side2"
    and "row_1 ''strand'' = Some strand1" and "row_2 ''strand'' = Some strand2"
  shows "get_rev_comp_flags spec row_1 row_2 =
           Inr (side1 = PStr ''start'' \<and> strand1 = PStr ''+'' \<or>
                side1 = PStr ''end'' \<and> strand1 = PStr ''-'',
                side2 = PStr ''start'' \<and> strand2 = PStr ''-'' \<or>
                side2 = PStr ''end'' \<and> strand2 = PStr ''+'')"
  using assms by (simp add: get_rev_comp_flags_def)

lemma positional_side1_fails:
  assumes "row_1 ''chrom'' = Some (PStr c1)" and "row_2 ''chrom'' = Some (PStr c2)"
    and "spec ''feature1'' = Some f1" and "spec ''bases1'' = Some b1"
    and "spec ''side1'' = Some s1" and "spec ''feature2'' = Some f2"
    and "spec ''bases2'' = Some b2" and "spec ''side2'' = Some s2"
    and "get_base_position_per_row exons f1 b1 s1 row_1 = Inl e"
  shows "positional_sequence_range exons spec row_1 row_2 = Inl e"
  using assms by (simp add: positional_sequence_range_def get_base_positions_def)

lemma positional_side2_fails:
  assumes "row_1 ''chrom'' = Some (PStr c1)" and "row_2 ''chrom'' = Some (PStr c2)"
    and "spec ''feature1'' = Some f1" and "spec ''bases1'' = Some b1"
    and "spec ''side1'' = Some s1" and "spec ''feature2'' = Some f2"
    and "spec ''bases2'' = Some b2" and "spec ''side2'' = Some s2"
    and "get_base_position_per_row exons f1 b1 s1 row_1 = Inr p"
    and "get_base_position_per_row exons f2 b2 s2 row_2 = Inl e"
  shows "positional_sequence_range exons spec row_1 row_2 = Inl e"
  using assms by (cases p) (simp add: positional_sequence_range_def get_base_positions_def)

lemma example_spec_fields:
  "example_spec ''gene1'' = Some (PStr ''ABC'')"
  "example_spec ''feature1'' = Some (PTuple [PStr ''exon'', PInt 1])"
  "example_spec ''side1'' = Some (PStr ''end'')"
  "example_spec ''bases1'' = Some (PInt 20)"
  "example_spec ''gene2'' = Some (PStr ''DEF'')"
  "example_spec ''feature2'' = Some (PTuple [PStr ''exon'', PInt 2])"
  "example_spec ''side2'' = Some (PStr ''start'')"
  "example_spec ''bases2'' = Some (PInt 30)"
  "example_spec ''separator'' = Some (PStr ''/'')"
  by (simp_all add: example_spec_def)

lemma example_row_fields:
  "row_plus ''chrom'' = Some (PStr ''chr1'')" "row_plus ''strand'' = Some (PStr ''+'')"
  "row_minus ''chrom'' = Some (PStr ''chrX'')" "row_minus ''strand'' = Some (PStr ''-'')"
  by (simp_all add: row_plus_def row_minus_def)

lemma example_positional:
  "positional_sequence_range two_exons example_spec row_plus row_minus =
     Inr \<lparr>chromosome1 = ''1'', start1 = 81, end1 = 100,
          chromosome2 = ''X'', start2 = 271, end2 = 300,
          rc_side_1 = False, rc_side_2 = True\<rparr>"
  by code_simp

lemma example_no_feature:
  "positional_sequence_range two_exons
       (example_spec(''feature1'' \<mapsto> PTuple [PStr ''exon'', PInt 3])) row_plus row_minus =
     Inl (NoFeatureError
       ''specification requires feature 'exon'[3], but row specifies only 2 'exon'(s)'')"
  by code_simp

lemma flip_specification_find:
  "flip_specification spec =
     (case find (\<lambda>k. spec k = None) side_fields of
        None \<Rightarrow> Inr (exchange_sides spec)
      | Some k \<Rightarrow> Inl (InterfaceError (Some k)))"
  by (simp add: flip_specification_def side_fields_def getitem_def exchange_sides_def
      split: option.split)

lemma side_fields_present_iff:
  "find (\<lambda>k. spec k = None) side_fields = None \<longleftrightarrow> set side_fields \<subseteq> dom spec"
  by (auto simp add: find_None_iff)

lemma flip_specification_present:
  "set side_fields \<subseteq> dom spec \<Longrightarrow> flip_specification spec = Inr (exchange_sides spec)"
  using side_fields_present_iff [of spec] by (simp add: flip_specification_find)

lemma flip_specification_missing:
  assumes "\<not> set side_fields \<subseteq> dom spec"
  shows "\<exists>k \<in> set side_fields. spec k = None \<and>
           flip_specification spec = Inl (InterfaceError (Some k))"
proof (cases "find (\<lambda>k. spec k = None) side_fields")
  case None
  with assms show ?thesis by (simp add: side_fields_present_iff)
next
  case (Some k)
  then have "k \<in> set side_fields" and "spec k = None"
    by (auto simp add: find_Some_iff)
  with Some show ?thesis
    by (auto simp add: flip_specification_find)
qed

lemma exchange_sides_apply: "exchange_sides spec k = spec (other_side k)"
  by (simp add: exchange_sides_def other_side_def)

lemma other_side_involution: "other_side (other_side k) = k"
  by (simp add: other_side_def)

lemma other_side_fields: "k \<in> set side_fields \<Longrightarrow> other_side k \<in> set side_fields"
  by (auto simp add: other_side_def side_fields_def)

lemma exchange_sides_involution: "exchange_sides (exchange_sides spec) = spec"
  by (rule ext) (simp add: exchange_sides_apply other_side_involution)

lemma dom_exchange_sides:
  "set side_fields \<subseteq> dom spec \<Longrightarrow> set side_fields \<subseteq> dom (exchange_sides spec)"
  using other_side_fields by (auto simp add: exchange_sides_apply subset_iff dom_def simp del: not_None_eq)

lemma check_read_through_spec_sides:
  assumes "spec ''side1'' = Some s1" and "spec ''side2'' = Some s2"
  shows "check_read_through_spec spec =
           Inr (if s1 = PStr ''end'' \<and> s2 = PStr ''start'' then [] else [WARNING_MESSAGE])"
  using assms by (simp add: check_read_through_spec_def)

lemma read_through_sides:
  assumes "spec ''side1'' = Some s1" and "spec ''side2'' = Some s2"
  shows "read_through_sequence_range exons spec row_1 row_2 =
           (if s1 = PStr ''end'' \<and> s2 = PStr ''start'' then [] else [WARNING_MESSAGE],
            if row_1 ''strand'' = Some (PStr ''+'') then
              positional_sequence_range exons spec row_1 row_2
            else if row_1 ''strand'' = Some (PStr ''-'') then
              and_then (flip_specification spec) (\<lambda>flipped.
                positional_sequence_range exons flipped row_2 row_1)
            else Inl (InterfaceError None))"
  unfolding read_through_sequence_range_def check_read_through_spec_sides [OF assms]
  by simp

lemma example_side_fields: "set side_fields \<subseteq> dom example_spec"
  by (simp add: side_fields_def example_spec_def)

lemma example_missing_bases2:
  "flip_specification (example_spec(''bases2'' := None)) = Inl (InterfaceError (Some ''bases2''))"
  by (simp add: flip_specification_find side_fields_def example_spec_def)

lemma and_then_same_outcome:
  assumes "rel_sum (=) P r r'"
    and "\<And>x y. P x y \<Longrightarrow> rel_sum (=) Q (f x) (g y)"
  shows "rel_sum (=) Q (and_then r f) (and_then r' g)"
  using assms by (cases r; cases r') simp_all

lemma and_then_same_first:
  assumes "\<And>x. rel_sum (=) Q (f x) (g x)"
  shows "rel_sum (=) Q (and_then r f) (and_then r g)"
  using assms by (cases r) simp_all

lemma get_base_pair_range_outcome:
  "rel_sum (=) (\<lambda>_ _. True)
     (get_base_pair_range nbases start end' side strand)
     (get_base_pair_range nbases start end' side' strand)"
  by (cases nbases) (simp_all add: get_base_pair_range_def)

lemma per_row_outcome:
  "rel_sum (=) (\<lambda>_ _. True)
     (get_base_position_per_row exons feature nbases side row)
     (get_base_position_per_row exons feature nbases side' row)"
  unfolding get_base_position_per_row_def
  by (auto intro!: and_then_same_first simp add: get_base_pair_range_outcome
      split: prod.splits)

lemma get_base_positions_outcome:
  "rel_sum (=) (\<lambda>_ _. True)
     (get_base_positions exons (spec(''side1'' \<mapsto> a, ''side2'' \<mapsto> b)) row_1 row_2)
     (get_base_positions exons (spec(''side1'' \<mapsto> a', ''side2'' \<mapsto> b')) row_1 row_2)"
  unfolding get_base_positions_def getitem_def
  by (auto intro!: and_then_same_outcome [OF per_row_outcome]
      split: option.splits prod.splits)

lemma get_rev_comp_flags_outcome:
  "rel_sum (=) (\<lambda>_ _. True)
     (get_rev_comp_flags (spec(''side1'' \<mapsto> a, ''side2'' \<mapsto> b)) row_1 row_2)
     (get_rev_comp_flags (spec(''side1'' \<mapsto> a', ''side2'' \<mapsto> b')) row_1 row_2)"
  unfolding get_rev_comp_flags_def getitem_def
  by (simp split: option.splits)

lemma positional_outcome:
  "rel_sum (=) (\<lambda>_ _. True)
     (positional_sequence_range exons (spec(''side1'' \<mapsto> a, ''side2'' \<mapsto> b)) row_1 row_2)
     (positional_sequence_range exons (spec(''side1'' \<mapsto> a', ''side2'' \<mapsto> b')) row_1 row_2)"
  unfolding positional_sequence_range_def
  by (auto intro!: and_then_same_first and_then_same_outcome [OF get_base_positions_outcome]
      and_then_same_outcome [OF get_rev_comp_flags_outcome]
      split: prod.splits)

lemma same_outcome_Inl:
  "rel_sum (=) (\<lambda>_ _. True) r r' \<Longrightarrow> r = Inl e \<longleftrightarrow> r' = Inl e"
  by (cases r; cases r') auto

lemma exchange_sides_update:
  "exchange_sides (spec(''side1'' \<mapsto> a, ''side2'' \<mapsto> b)) =
     (exchange_sides spec)(''side1'' \<mapsto> b, ''side2'' \<mapsto> a)"
  by (rule ext) (simp add: exchange_sides_apply other_side_def)

lemma flip_specification_update:
  "flip_specification (spec(''side1'' \<mapsto> a, ''side2'' \<mapsto> b)) =
     (case find (\<lambda>k. k \<noteq> ''side1'' \<and> k \<noteq> ''side2'' \<and> spec k = None) side_fields of
        None \<Rightarrow> Inr ((exchange_sides spec)(''side1'' \<mapsto> b, ''side2'' \<mapsto> a))
      | Some k \<Rightarrow> Inl (InterfaceError (Some k)))"
proof -
  have "(\<lambda>k. (spec(''side1'' \<mapsto> a, ''side2'' \<mapsto> b)) k = None) =
      (\<lambda>k. k \<noteq> ''side1'' \<and> k \<noteq> ''side2'' \<and> spec k = None)"
    by (rule ext) simp
  then show ?thesis
    unfolding flip_specification_find exchange_sides_update by simp
qed

lemma read_through_outcome:
  "rel_sum (=) (\<lambda>_ _. True)
     (snd (read_through_sequence_range exons (spec(''side1'' \<mapsto> a, ''side2'' \<mapsto> b)) row_1 row_2))
     (snd (read_through_sequence_range exons (spec(''side1'' \<mapsto> a', ''side2'' \<mapsto> b')) row_1 row_2))"
proof -
  have flipped: "rel_sum (=) (\<lambda>_ _. True)
      (and_then (flip_specification (spec(''side1'' \<mapsto> a, ''side2'' \<mapsto> b)))
         (\<lambda>flipped. positional_sequence_range exons flipped row_2 row_1))
      (and_then (flip_specification (spec(''side1'' \<mapsto> a', ''side2'' \<mapsto> b')))
         (\<lambda>flipped. positional_sequence_range exons flipped row_2 row_1))"
    unfolding flip_specification_update
    by (cases "find (\<lambda>k. k \<noteq> ''side1'' \<and> k \<noteq> ''side2'' \<and> spec k = None) side_fields")
      (simp_all add: positional_outcome)
  show ?thesis
    unfolding read_through_sides [where spec = "spec(''side1'' \<mapsto> a, ''side2'' \<mapsto> b)"
        and ?s1.0 = a and ?s2.0 = b, simplified]
      read_through_sides [where spec = "spec(''side1'' \<mapsto> a', ''side2'' \<mapsto> b')"
        and ?s1.0 = a' and ?s2.0 = b', simplified]
    using flipped by (simp add: positional_outcome)
qed

lemma example_read_through_fields:
  "example_read_through ''separator'' = Some (PStr ''->'')"
  "example_read_through ''side1'' = Some (PStr ''end'')"
  "example_read_through ''side2'' = Some (PStr ''start'')"
  "set side_fields \<subseteq> dom example_read_through"
  by (simp_all add: example_read_through_def example_spec_def side_fields_def)

lemma example_flipped_positional:
  "positional_sequence_range two_exons (exchange_sides example_read_through) row_plus row_minus =
     Inr \<lparr>chromosome1 = ''1'', start1 = 201, end1 = 230,
          chromosome2 = ''X'', start2 = 1, end2 = 20,
          rc_side_1 = True, rc_side_2 = False\<rparr>"
  by code_simp

lemma example_mismatch_fields:
  "(example_read_through(''side1'' \<mapsto> PStr ''start'')) ''separator'' = Some (PStr ''->'')"
  "(example_read_through(''side1'' \<mapsto> PStr ''start'')) ''side1'' = Some (PStr ''start'')"
  "(example_read_through(''side1'' \<mapsto> PStr ''start'')) ''side2'' = Some (PStr ''start'')"
  "\<not> (PStr ''start'' = PStr ''end'' \<and> PStr ''start'' = PStr ''start'')"
  by (simp_all add: example_read_through_def example_spec_def)

lemma example_mismatch_positional:
  "positional_sequence_range two_exons (example_read_through(''side1'' \<mapsto> PStr ''start''))
       row_plus row_minus =
     Inr \<lparr>chromosome1 = ''1'', start1 = 1, end1 = 20,
          chromosome2 = ''X'', start2 = 271, end2 = 300,
          rc_side_1 = True, rc_side_2 = True\<rparr>"
  by code_simp

lemma explode_loop_append:
  "explode_loop rc repr statement (xs @ ys) st =
     explode_loop rc repr statement ys (explode_loop rc repr statement xs st)"
  by (induction xs arbitrary: st) simp_all

lemma explode_step_base:
  "base (partial_spec (explode_step rc repr statement txt st)) = base (partial_spec st)"
  by (simp add: explode_step_def Let_def split: sum.splits)

lemma explode_loop_base:
  "base (partial_spec (explode_loop rc repr statement txts st)) = base (partial_spec st)"
  by (induction txts arbitrary: st) (simp_all add: explode_step_base)

lemma explode_step_extends:
  "\<exists>more_probes more_log.
     probes (explode_step rc repr statement txt st) = probes st @ more_probes \<and>
     stderr (explode_step rc repr statement txt st) = stderr st @ more_log"
  by (simp add: explode_step_def Let_def split: sum.splits)

lemma explode_loop_extends:
  "\<exists>more_probes more_log.
     probes (explode_loop rc repr statement txts st) = probes st @ more_probes \<and>
     stderr (explode_loop rc repr statement txts st) = stderr st @ more_log"
proof (induction txts arbitrary: st)
  case Nil
  show ?case by simp
next
  case (Cons t ts)
  obtain p1 l1 where step:
    "probes (explode_step rc repr statement t st) = probes st @ p1"
    "stderr (explode_step rc repr statement t st) = stderr st @ l1"
    using explode_step_extends by blast
  obtain p2 l2 where rest:
    "probes (explode_loop rc repr statement ts (explode_step rc repr statement t st)) =
       probes (explode_step rc repr statement t st) @ p2"
    "stderr (explode_loop rc repr statement ts (explode_step rc repr statement t st)) =
       stderr (explode_step rc repr statement t st) @ l2"
    using Cons.IH by blast
  show ?case
    using step rest by simp
qed

lemma explode_step_out_of_range:
  assumes "nucleotide_index txt
             (if plus_strand txt then base (partial_spec st) else base (partial_spec st) - 2) =
           Inl msg"
  shows "explode_step rc repr statement txt st =
           st\<lparr>partial_spec :=
                (if plus_strand txt then partial_spec st
                 else (partial_spec st)\<lparr>mutation := rc (mutation (partial_spec st))\<rparr>),
              stderr := stderr st @ [msg @ '' in statement: '' @ repr statement @ [CHR 0x0A]]\<rparr>"
  using assms by (simp add: explode_step_def Let_def)

lemma example_parse:
  "parse ''ABC:c.5A>T/20'' =
     Inr \<lparr>gene = ''ABC'', base = 5, reference = ''A'', mutation = ''T'',
          bases = 20, comment = []\<rparr>"
  by code_simp

lemma example_explode:
  "explode example_lookup_gene example_reverse_complement example_repr ''ABC:c.5A>T/20''
       (Some [transcript_NM_1, transcript_NM_2, transcript_NM_3]) =
     ([''base 5 is out of range in statement: '' @ example_repr ''ABC:c.5A>T/20'' @
         [CHR 0x0A]],
      Inr [GeneSnpProbe
             \<lparr>gene = ''ABC'', base = 5, reference = ''A'', mutation = ''T'',
              bases = 20, comment = [],
              chromosome = ''1'', transcript = ''NM_1'', index = 1005\<rparr>,
           GeneSnpProbe
             \<lparr>gene = ''ABC'', base = 5, reference = ''A'', mutation = ''A'',
              bases = 20, comment = [],
              chromosome = ''3'', transcript = ''NM_3'', index = 3003\<rparr>])"
  by code_simp

section \<open>Numeric bases: the sub-range at the requested edge\<close>

text \<open>
  C1. For a side with an integer \<open>bases\<close> value \<open>b\<close>, a feature whose number resolves to
  the exon \<open>(exon_start, exon_end)\<close> of the row, any side value and any strand:
  \<^verbatim>\<open>_is_leftmost_side\<close> holds iff \<open>(side = 'start') = (strand = '+')\<close>; when it
  holds the per-side resolver returns \<open>(exon_start + 1, exon_start + b)\<close>, and otherwise
  \<open>(exon_end - b + 1, exon_end)\<close>.
\<close>

theorem numeric_bases_range:
  assumes "row ''strand'' = Some strand"
    and "exons row = Inr positions"
    and "get_exon positions which_exon = Inr (exon_start, exon_end)"
  shows "is_leftmost_side side strand = ((side = PStr ''start'') = (strand = PStr ''+'')) \<and>
         get_base_position_per_row exons (PTuple [kind, which_exon]) (PInt b) side row =
           Inr (if (side = PStr ''start'') = (strand = PStr ''+'')
                then (exon_start + 1, exon_start + b)
                else (exon_end - b + 1, exon_end))"
  using assms
  by (simp add: per_row_resolved get_base_pair_range_def is_leftmost_side_def)

text \<open>
  The rows of the resolver's tests: one exon \<open>(0, 100]\<close>, twenty bases. The start on the
  plus strand is \<open>(1, 20)\<close>, the end is \<open>(81, 100)\<close>, and the start on the minus strand
  is the rightmost twenty bases again.
\<close>

theorem numeric_bases_range_witness:
  "get_base_position_per_row (\<lambda>_. Inr [(0, 100)]) (PTuple [PStr ''exon'', PInt 1])
       (PInt 20) (PStr ''start'') [''strand'' \<mapsto> PStr ''+''] = Inr (1, 20) \<and>
   get_base_position_per_row (\<lambda>_. Inr [(0, 100)]) (PTuple [PStr ''exon'', PInt 1])
       (PInt 20) (PStr ''end'') [''strand'' \<mapsto> PStr ''+''] = Inr (81, 100) \<and>
   get_base_position_per_row (\<lambda>_. Inr [(0, 100)]) (PTuple [PStr ''exon'', PInt 1])
       (PInt 20) (PStr ''start'') [''strand'' \<mapsto> PStr ''-''] = Inr (81, 100)"
  using numeric_bases_range [where exons = "\<lambda>_. Inr [(0, 100)]" and positions = "[(0, 100)]"
        and row = "[''strand'' \<mapsto> PStr ''+'']" and strand = "PStr ''+''" and which_exon = "PInt 1"
        and exon_start = 0 and exon_end = 100 and side = "PStr ''start''"
        and kind = "PStr ''exon''" and b = 20]
    numeric_bases_range [where exons = "\<lambda>_. Inr [(0, 100)]" and positions = "[(0, 100)]"
        and row = "[''strand'' \<mapsto> PStr ''+'']" and strand = "PStr ''+''" and which_exon = "PInt 1"
        and exon_start = 0 and exon_end = 100 and side = "PStr ''end''"
        and kind = "PStr ''exon''" and b = 20]
    numeric_bases_range [where exons = "\<lambda>_. Inr [(0, 100)]" and positions = "[(0, 100)]"
        and row = "[''strand'' \<mapsto> PStr ''-'']" and strand = "PStr ''-''" and which_exon = "PInt 1"
        and exon_start = 0 and exon_end = 100 and side = "PStr ''start''"
        and kind = "PStr ''exon''" and b = 20]
  by (simp add: get_exon_def)

section \<open>Glob bases: the exon interval as stored\<close>

text \<open>
  C4. For a side whose \<open>bases\<close> field is the glob \<^verbatim>\<open>'*'\<close> and whose feature number
  \<open>n\<close> is in range (\<open>1 \<le> n \<le> length positions\<close>), the per-side resolver returns the
  \<open>n\<close>-th exon of the row exactly as stored, with no \<open>+1\<close> on its start. (The numeric
  branch starts a leftmost range at \<open>exon_start + 1\<close>.)
\<close>

theorem glob_bases_exon_unchanged:
  assumes "row ''strand'' = Some strand"
    and "exons row = Inr positions"
    and "1 \<le> n" and "n \<le> int (length positions)"
  shows "get_base_position_per_row exons (PTuple [kind, PInt n]) (PStr ''*'') side row =
           Inr (positions ! nat (n - 1))"
  using assms by (simp add: per_row_resolved [where exon_start = "fst (positions ! nat (n - 1))"
        and exon_end = "snd (positions ! nat (n - 1))"] get_exon_in_range)

text \<open>
  The test row again: \<^verbatim>\<open>bases='*'\<close> on the exon \<open>(0, 100]\<close> gives \<open>(0, 100)\<close>.
\<close>

theorem glob_bases_exon_unchanged_witness:
  "get_base_position_per_row (\<lambda>_. Inr [(0, 100)]) (PTuple [PStr ''exon'', PInt 1])
       (PStr ''*'') (PStr ''start'') [''strand'' \<mapsto> PStr ''+''] = Inr (0, 100)"
  using glob_bases_exon_unchanged [where exons = "\<lambda>_. Inr [(0, 100)]" and positions = "[(0, 100)]"
        and row = "[''strand'' \<mapsto> PStr ''+'']" and strand = "PStr ''+''" and n = 1
        and side = "PStr ''start''" and kind = "PStr ''exon''"]
  by simp

section \<open>A feature number past the end of the row\<close>

text \<open>
  C5. When the requested feature number \<open>n\<close> exceeds the number \<open>k\<close> of exons of the row,
  the exon lookup, the per-side resolver and the positional resolver (for side 1, on rows
  and a specification that carry their fields) all fail with \<^verbatim>\<open>NoFeatureError\<close>,
  and the message is the source's format string with \<open>str(n)\<close> as the number and \<open>k\<close> as
  the length.
\<close>

theorem feature_past_end_no_feature_error:
  assumes "row ''strand'' = Some strand"
    and "exons row = Inr positions"
    and "int (length positions) < n"
  shows "no_feature_message n (length positions) =
           ''specification requires feature 'exon'['' @ str_int n @
           ''], but row specifies only '' @ str_nat (length positions) @ '' 'exon'(s)'' \<and>
         get_exon positions (PInt n) =
           Inl (NoFeatureError (no_feature_message n (length positions))) \<and>
         get_base_position_per_row exons (PTuple [kind, PInt n]) nbases side row =
           Inl (NoFeatureError (no_feature_message n (length positions))) \<and>
         (\<forall>spec other c1 c2 b2 s2 f2.
            row ''chrom'' = Some (PStr c1) \<and> other ''chrom'' = Some (PStr c2) \<and>
            spec ''feature1'' = Some (PTuple [kind, PInt n]) \<and> spec ''bases1'' = Some nbases \<and>
            spec ''side1'' = Some side \<and> spec ''feature2'' = Some f2 \<and>
            spec ''bases2'' = Some b2 \<and> spec ''side2'' = Some s2 \<longrightarrow>
            positional_sequence_range exons spec row other =
              Inl (NoFeatureError (no_feature_message n (length positions))))"
proof -
  have exon: "get_exon positions (PInt n) =
      Inl (NoFeatureError (no_feature_message n (length positions)))"
    using assms(3) by (rule get_exon_past_end)
  have side: "get_base_position_per_row exons (PTuple [kind, PInt n]) nbases side row =
      Inl (NoFeatureError (no_feature_message n (length positions)))"
    using assms(1,2) exon by (rule per_row_no_feature)
  have "positional_sequence_range exons spec row other =
      Inl (NoFeatureError (no_feature_message n (length positions)))"
    if "row ''chrom'' = Some (PStr c1)" "other ''chrom'' = Some (PStr c2)"
      "spec ''feature1'' = Some (PTuple [kind, PInt n])" "spec ''bases1'' = Some nbases"
      "spec ''side1'' = Some side" "spec ''feature2'' = Some f2"
      "spec ''bases2'' = Some b2" "spec ''side2'' = Some s2"
    for spec other c1 c2 b2 s2 f2
    using that side by (rule positional_side1_fails)
  with exon side show ?thesis
    by (simp add: no_feature_message_def)
qed

text \<open>
  Exon 3 of a row with two exons: the message reports number 3 and length 2.
\<close>

theorem feature_past_end_no_feature_error_witness:
  "get_exon [(0, 100), (200, 300)] (PInt 3) =
     Inl (NoFeatureError
       ''specification requires feature 'exon'[3], but row specifies only 2 'exon'(s)'') \<and>
   get_base_position_per_row two_exons (PTuple [PStr ''exon'', PInt 3])
       (PInt 20) (PStr ''end'') row_plus =
     Inl (NoFeatureError
       ''specification requires feature 'exon'[3], but row specifies only 2 'exon'(s)'') \<and>
   positional_sequence_range two_exons
       (example_spec(''feature1'' \<mapsto> PTuple [PStr ''exon'', PInt 3])) row_plus row_minus =
     Inl (NoFeatureError
       ''specification requires feature 'exon'[3], but row specifies only 2 'exon'(s)'')"
proof -
  have k: "int (length [(0 :: int, 100 :: int), (200, 300)]) < 3" by simp
  have msg: "no_feature_message 3 (length [(0 :: int, 100 :: int), (200, 300)]) =
      ''specification requires feature 'exon'[3], but row specifies only 2 'exon'(s)''"
    by code_simp
  note t = feature_past_end_no_feature_error [where row = row_plus and exons = two_exons
      and positions = "[(0, 100), (200, 300)]" and n = 3 and kind = "PStr ''exon''"
      and nbases = "PInt 20" and side = "PStr ''end''",
      OF example_row_fields(2) two_exons_def k, unfolded msg]
  from t example_no_feature show ?thesis by simp
qed

section \<open>Feature number zero and negative feature numbers\<close>

text \<open>
  C9, as stated, says \<^verbatim>\<open>NoFeatureError\<close> is raised only when \<open>index - 1\<close> is at or
  past the length of the list. On a one-exon list the feature number \<open>-2\<close> gives the
  subscript \<open>-3\<close>, which is below \<open>-1\<close>: Python raises \<^verbatim>\<open>IndexError\<close> and the
  source turns it into \<^verbatim>\<open>NoFeatureError\<close>, although \<open>-3\<close> is not at or past 1.
\<close>

theorem get_exon_far_negative_counterexample:
  "[(0, 100)] \<noteq> ([] :: (int \<times> int) list) \<and>
   raises_NoFeatureError (get_exon [(0, 100)] (PInt (- 2))) \<and>
   \<not> int (length [(0 :: int, 100 :: int)]) \<le> (- 2) - 1"
  by (simp add: get_exon_def raises_NoFeatureError_def)

text \<open>
  C9, amended. On a non-empty list feature number 0 returns the last exon;
  \<^verbatim>\<open>NoFeatureError\<close> is raised exactly when \<open>index - 1\<close> is at or past the length of the
  list or below minus the length; and a negative subscript in range,
  \<open>-len \<le> index - 1 < 0\<close>, returns the exon counted from the end.
\<close>

theorem get_exon_python_subscript:
  "(positions \<noteq> [] \<longrightarrow> get_exon positions (PInt 0) = Inr (last positions)) \<and>
   (raises_NoFeatureError (get_exon positions (PInt i)) \<longleftrightarrow>
      int (length positions) \<le> i - 1 \<or> i - 1 < - int (length positions)) \<and>
   (- int (length positions) \<le> i - 1 \<and> i - 1 < 0 \<longrightarrow>
      get_exon positions (PInt i) = Inr (positions ! nat (int (length positions) + (i - 1))))"
proof -
  have idx: "nat (int (length positions) - 1) = length positions - 1"
    by simp
  have zero: "positions \<noteq> [] \<longrightarrow> get_exon positions (PInt 0) = Inr (last positions)"
    by (simp add: get_exon_def Let_def last_conv_nth idx del: of_nat_diff)
  have raised: "raises_NoFeatureError (get_exon positions (PInt i)) \<longleftrightarrow>
      int (length positions) \<le> i - 1 \<or> i - 1 < - int (length positions)"
    by (auto simp add: get_exon_def Let_def raises_NoFeatureError_def)
  have wrapped: "- int (length positions) \<le> i - 1 \<and> i - 1 < 0 \<longrightarrow>
      get_exon positions (PInt i) = Inr (positions ! nat (int (length positions) + (i - 1)))"
    by (simp add: get_exon_def Let_def)
  from zero raised wrapped show ?thesis by blast
qed

text \<open>
  On a two-exon list: number 0 is the last exon, number \<open>-1\<close> the first, and the
  numbers \<open>-2\<close> and 3 raise.
\<close>

theorem get_exon_python_subscript_witness:
  "get_exon [(0, 100), (200, 300)] (PInt 0) = Inr (200, 300) \<and>
   get_exon [(0, 100), (200, 300)] (PInt (- 1)) = Inr (0, 100) \<and>
   raises_NoFeatureError (get_exon [(0, 100), (200, 300)] (PInt (- 2))) \<and>
   raises_NoFeatureError (get_exon [(0, 100), (200, 300)] (PInt 3))"
  using get_exon_python_subscript [of "[(0, 100), (200, 300)]" 0]
    get_exon_python_subscript [of "[(0, 100), (200, 300)]" "- 1"]
    get_exon_python_subscript [of "[(0, 100), (200, 300)]" "- 2"]
    get_exon_python_subscript [of "[(0, 100), (200, 300)]" 3]
  by simp

section \<open>Reverse-complement flags\<close>

text \<open>
  C2. For a specification with both sides and rows with their strands, the flag of side 1
  is true exactly when \<open>(side1, strand1)\<close> is \<open>(start, +)\<close> or \<open>(end, -)\<close>, the flag of
  side 2 exactly when \<open>(side2, strand2)\<close> is \<open>(start, -)\<close> or \<open>(end, +)\<close>; and these are
  the flags of every coordinate record the positional resolver returns.
\<close>

theorem rev_comp_flags_table:
  assumes "spec ''side1'' = Some side1" and "spec ''side2'' = Some side2"
    and "row_1 ''strand'' = Some strand1" and "row_2 ''strand'' = Some strand2"
  shows "get_rev_comp_flags spec row_1 row_2 =
           Inr (side1 = PStr ''start'' \<and> strand1 = PStr ''+'' \<or>
                side1 = PStr ''end'' \<and> strand1 = PStr ''-'',
                side2 = PStr ''start'' \<and> strand2 = PStr ''-'' \<or>
                side2 = PStr ''end'' \<and> strand2 = PStr ''+'') \<and>
         (\<forall>c. positional_sequence_range exons spec row_1 row_2 = Inr c \<longrightarrow>
            rc_side_1 c = (side1 = PStr ''start'' \<and> strand1 = PStr ''+'' \<or>
                           side1 = PStr ''end'' \<and> strand1 = PStr ''-'') \<and>
            rc_side_2 c = (side2 = PStr ''start'' \<and> strand2 = PStr ''-'' \<or>
                           side2 = PStr ''end'' \<and> strand2 = PStr ''+''))"
proof -
  have flags: "get_rev_comp_flags spec row_1 row_2 =
           Inr (side1 = PStr ''start'' \<and> strand1 = PStr ''+'' \<or>
                side1 = PStr ''end'' \<and> strand1 = PStr ''-'',
                side2 = PStr ''start'' \<and> strand2 = PStr ''-'' \<or>
                side2 = PStr ''end'' \<and> strand2 = PStr ''+'')"
    using assms by (rule get_rev_comp_flags_fields)
  have "rc_side_1 c = (side1 = PStr ''start'' \<and> strand1 = PStr ''+'' \<or>
                       side1 = PStr ''end'' \<and> strand1 = PStr ''-'') \<and>
        rc_side_2 c = (side2 = PStr ''start'' \<and> strand2 = PStr ''-'' \<or>
                       side2 = PStr ''end'' \<and> strand2 = PStr ''+'')"
    if "positional_sequence_range exons spec row_1 row_2 = Inr c" for c
  proof -
    from that obtain chromosomes where
      rest: "and_then (get_base_positions exons spec row_1 row_2)
         (\<lambda>(left_start, left_end, right_start, right_end).
           and_then (get_rev_comp_flags spec row_1 row_2) (\<lambda>(rc_left, rc_right).
             Inr \<lparr>chromosome1 = chromosomes ! 0, start1 = left_start, end1 = left_end,
                  chromosome2 = chromosomes ! 1, start2 = right_start, end2 = right_end,
                  rc_side_1 = rc_left, rc_side_2 = rc_right\<rparr>)) = Inr c"
      unfolding positional_sequence_range_def and_then_eq_Inr by blast
    then obtain p where
      "(case p of (left_start, left_end, right_start, right_end) \<Rightarrow>
           and_then (get_rev_comp_flags spec row_1 row_2) (\<lambda>(rc_left, rc_right).
             Inr \<lparr>chromosome1 = chromosomes ! 0, start1 = left_start, end1 = left_end,
                  chromosome2 = chromosomes ! 1, start2 = right_start, end2 = right_end,
                  rc_side_1 = rc_left, rc_side_2 = rc_right\<rparr>)) = Inr c"
      unfolding and_then_eq_Inr by blast
    then show ?thesis
      by (cases p) (auto simp add: flags)
  qed
  with flags show ?thesis by blast
qed

text \<open>
  The example specification (side 1 \<open>end\<close>, side 2 \<open>start\<close>) on a plus and a minus row,
  and on the rows exchanged.
\<close>

theorem rev_comp_flags_table_witness:
  "positional_sequence_range two_exons example_spec row_plus row_minus =
     Inr \<lparr>chromosome1 = ''1'', start1 = 81, end1 = 100,
          chromosome2 = ''X'', start2 = 271, end2 = 300,
          rc_side_1 = False, rc_side_2 = True\<rparr> \<and>
   get_rev_comp_flags example_spec row_plus row_minus = Inr (False, True) \<and>
   get_rev_comp_flags example_spec row_minus row_plus = Inr (True, False)"
  using rev_comp_flags_table [where spec = example_spec and ?row_1.0 = row_plus
      and ?row_2.0 = row_minus and exons = two_exons,
      OF example_spec_fields(3) example_spec_fields(7) example_row_fields(2) example_row_fields(4)]
    rev_comp_flags_table [where spec = example_spec and ?row_1.0 = row_minus
      and ?row_2.0 = row_plus and exons = two_exons,
      OF example_spec_fields(3) example_spec_fields(7) example_row_fields(4) example_row_fields(2)]
    example_positional
  by simp

section \<open>Flipping a specification twice\<close>

text \<open>
  C10. On a specification that has all eight side fields, flipping succeeds and flipping
  the result gives the original specification back; on a specification that lacks one of
  them, flipping raises \<^verbatim>\<open>InterfaceError\<close>, from the \<^verbatim>\<open>KeyError\<close> of a missing
  side field.
\<close>

theorem flip_specification_involution:
  "(set side_fields \<subseteq> dom spec \<longrightarrow>
      and_then (flip_specification spec) flip_specification = Inr spec) \<and>
   (\<not> set side_fields \<subseteq> dom spec \<longrightarrow>
      (\<exists>k \<in> set side_fields. spec k = None \<and>
         flip_specification spec = Inl (InterfaceError (Some k))))"
proof (intro conjI impI)
  assume present: "set side_fields \<subseteq> dom spec"
  then have "flip_specification spec = Inr (exchange_sides spec)"
    by (rule flip_specification_present)
  moreover have "flip_specification (exchange_sides spec) = Inr (exchange_sides (exchange_sides spec))"
    using present by (intro flip_specification_present dom_exchange_sides)
  ultimately show "and_then (flip_specification spec) flip_specification = Inr spec"
    by (simp add: exchange_sides_involution)
next
  assume "\<not> set side_fields \<subseteq> dom spec"
  then show "\<exists>k \<in> set side_fields. spec k = None \<and>
      flip_specification spec = Inl (InterfaceError (Some k))"
    by (rule flip_specification_missing)
qed

text \<open>
  The example specification flips back to itself, and without \<^verbatim>\<open>bases2\<close> it
  raises.
\<close>

theorem flip_specification_involution_witness:
  "and_then (flip_specification example_spec) flip_specification = Inr example_spec \<and>
   flip_specification (example_spec(''bases2'' := None)) =
     Inl (InterfaceError (Some ''bases2''))"
  using flip_specification_involution [of example_spec] example_side_fields
    flip_specification_involution [of "example_spec(''bases2'' := None)"]
    example_missing_bases2
  by simp

section \<open>Read-through resolution is positional resolution, flipped on the minus strand\<close>

text \<open>
  C3. For a read-through specification (separator \<^verbatim>\<open>'->'\<close>) with all eight side
  fields: the flipped specification is the one with the fields of sides 1 and 2 exchanged;
  when the strand of row 1 is \<^verbatim>\<open>'+'\<close> the result is the positional resolution of
  \<open>(spec, row_1, row_2)\<close>; when it is \<^verbatim>\<open>'-'\<close> it is the positional resolution of
  \<open>(flipped, row_2, row_1)\<close>; any other strand, or none, raises \<^verbatim>\<open>InterfaceError\<close>.
\<close>

theorem read_through_flips_on_minus:
  assumes "spec ''separator'' = Some (PStr ''->'')"
    and "set side_fields \<subseteq> dom spec"
  shows "flip_specification spec = Inr (exchange_sides spec) \<and>
         snd (sequence_range exons spec row_1 row_2) =
           (if row_1 ''strand'' = Some (PStr ''+'') then
              positional_sequence_range exons spec row_1 row_2
            else if row_1 ''strand'' = Some (PStr ''-'') then
              positional_sequence_range exons (exchange_sides spec) row_2 row_1
            else Inl (InterfaceError None))"
proof -
  have flip: "flip_specification spec = Inr (exchange_sides spec)"
    using assms(2) by (rule flip_specification_present)
  from assms(2) obtain s1 s2 where "spec ''side1'' = Some s1" and "spec ''side2'' = Some s2"
    by (auto simp add: side_fields_def)
  then have "read_through_sequence_range exons spec row_1 row_2 =
           (if s1 = PStr ''end'' \<and> s2 = PStr ''start'' then [] else [WARNING_MESSAGE],
            if row_1 ''strand'' = Some (PStr ''+'') then
              positional_sequence_range exons spec row_1 row_2
            else if row_1 ''strand'' = Some (PStr ''-'') then
              and_then (flip_specification spec) (\<lambda>flipped.
                positional_sequence_range exons flipped row_2 row_1)
            else Inl (InterfaceError None))"
    by (rule read_through_sides)
  with flip assms(1) show ?thesis
    by (simp add: sequence_range_def)
qed

text \<open>
  The example read-through statement with a minus-strand first row: the record is the
  one of the flipped call.
\<close>

theorem read_through_flips_on_minus_witness:
  "snd (sequence_range two_exons example_read_through row_minus row_plus) =
     positional_sequence_range two_exons (exchange_sides example_read_through) row_plus row_minus \<and>
   snd (sequence_range two_exons example_read_through row_minus row_plus) =
     Inr \<lparr>chromosome1 = ''1'', start1 = 201, end1 = 230,
          chromosome2 = ''X'', start2 = 1, end2 = 20,
          rc_side_1 = True, rc_side_2 = False\<rparr> \<and>
   snd (sequence_range two_exons example_read_through row_plus row_minus) =
     positional_sequence_range two_exons example_read_through row_plus row_minus"
  using read_through_flips_on_minus [where spec = example_read_through
      and ?row_1.0 = row_minus and ?row_2.0 = row_plus and exons = two_exons,
      OF example_read_through_fields(1) example_read_through_fields(4)]
    read_through_flips_on_minus [where spec = example_read_through
      and ?row_1.0 = row_plus and ?row_2.0 = row_minus and exons = two_exons,
      OF example_read_through_fields(1) example_read_through_fields(4)]
    example_flipped_positional
  by (simp add: example_row_fields)

section \<open>A read-through statement with unexpected sides\<close>

text \<open>
  C6. For a read-through specification whose sides are present but are not
  \<open>(end, start)\<close>, resolution writes the warning to the diagnostic stream and goes on to the
  same strand dispatch as any other read-through statement; and it raises an exception
  \<open>e\<close> exactly when the same specification with the sides set to \<open>(end, start)\<close> raises
  \<open>e\<close>, so the sides alone never make it fail.
\<close>

theorem read_through_side_mismatch_warns:
  assumes "spec ''separator'' = Some (PStr ''->'')"
    and "spec ''side1'' = Some s1" and "spec ''side2'' = Some s2"
    and "\<not> (s1 = PStr ''end'' \<and> s2 = PStr ''start'')"
  shows "sequence_range exons spec row_1 row_2 =
           ([WARNING_MESSAGE],
            if row_1 ''strand'' = Some (PStr ''+'') then
              positional_sequence_range exons spec row_1 row_2
            else if row_1 ''strand'' = Some (PStr ''-'') then
              and_then (flip_specification spec) (\<lambda>flipped.
                positional_sequence_range exons flipped row_2 row_1)
            else Inl (InterfaceError None)) \<and>
         (snd (sequence_range exons spec row_1 row_2) = Inl e \<longleftrightarrow>
          snd (sequence_range exons
                 (spec(''side1'' \<mapsto> PStr ''end'', ''side2'' \<mapsto> PStr ''start''))
                 row_1 row_2) = Inl e)"
proof -
  have rt: "sequence_range exons spec row_1 row_2 =
      read_through_sequence_range exons spec row_1 row_2"
    using assms(1) by (simp add: sequence_range_def)
  have rt_ok: "sequence_range exons
        (spec(''side1'' \<mapsto> PStr ''end'', ''side2'' \<mapsto> PStr ''start'')) row_1 row_2 =
      read_through_sequence_range exons
        (spec(''side1'' \<mapsto> PStr ''end'', ''side2'' \<mapsto> PStr ''start'')) row_1 row_2"
    using assms(1) by (simp add: sequence_range_def)
  have same: "spec(''side1'' \<mapsto> s1, ''side2'' \<mapsto> s2) = spec"
    using assms(2,3) by (auto simp add: fun_eq_iff)
  have "rel_sum (=) (\<lambda>_ _. True)
      (snd (read_through_sequence_range exons (spec(''side1'' \<mapsto> s1, ''side2'' \<mapsto> s2)) row_1 row_2))
      (snd (read_through_sequence_range exons
         (spec(''side1'' \<mapsto> PStr ''end'', ''side2'' \<mapsto> PStr ''start'')) row_1 row_2))"
    by (rule read_through_outcome)
  then have outcome: "snd (read_through_sequence_range exons spec row_1 row_2) = Inl e \<longleftrightarrow>
      snd (read_through_sequence_range exons
         (spec(''side1'' \<mapsto> PStr ''end'', ''side2'' \<mapsto> PStr ''start'')) row_1 row_2) = Inl e"
    unfolding same by (rule same_outcome_Inl)
  have "read_through_sequence_range exons spec row_1 row_2 =
           (if s1 = PStr ''end'' \<and> s2 = PStr ''start'' then [] else [WARNING_MESSAGE],
            if row_1 ''strand'' = Some (PStr ''+'') then
              positional_sequence_range exons spec row_1 row_2
            else if row_1 ''strand'' = Some (PStr ''-'') then
              and_then (flip_specification spec) (\<lambda>flipped.
                positional_sequence_range exons flipped row_2 row_1)
            else Inl (InterfaceError None))"
    using assms(2,3) by (rule read_through_sides)
  with assms(4) outcome show ?thesis
    unfolding rt rt_ok by simp
qed

text \<open>
  The example read-through statement with side 1 set to \<open>start\<close>: one warning, and a
  coordinate record.
\<close>

theorem read_through_side_mismatch_warns_witness:
  "sequence_range two_exons (example_read_through(''side1'' \<mapsto> PStr ''start''))
       row_plus row_minus =
     ([WARNING_MESSAGE],
      Inr \<lparr>chromosome1 = ''1'', start1 = 1, end1 = 20,
           chromosome2 = ''X'', start2 = 271, end2 = 300,
           rc_side_1 = True, rc_side_2 = True\<rparr>)"
  using read_through_side_mismatch_warns [where
      spec = "example_read_through(''side1'' \<mapsto> PStr ''start'')"
      and ?row_1.0 = row_plus and ?row_2.0 = row_minus and exons = two_exons,
      OF example_mismatch_fields]
    example_mismatch_positional
  by (simp add: example_row_fields)

section \<open>Chromosome names\<close>

text \<open>
  C7. The source strips with \<^verbatim>\<open>lstrip('chr')\<close>, which removes every leading character
  that is one of \<open>c\<close>, \<open>h\<close>, \<open>r\<close>, not the prefix \<open>chr\<close>: \<open>chr1\<close> becomes \<open>1\<close>, but
  \<open>contig12\<close>, which does not begin with \<open>chr\<close>, loses its first character, and \<open>chrchr1\<close>
  loses both prefixes.
\<close>

theorem get_chromosomes_strips_character_set:
  "get_chromosomes
     [[''chrom'' \<mapsto> PStr ''chr1''], [''chrom'' \<mapsto> PStr ''contig12''],
      [''chrom'' \<mapsto> PStr ''chrchr1'']] =
   Inr [''1'', ''ontig12'', ''1'']"
  by (simp add: lstrip_def)

section \<open>A transcript too short for the requested base\<close>

text \<open>
  C8. Let a statement parse, let the gene lookup return the transcripts \<open>before @ tx # after\<close>,
  and let \<^verbatim>\<open>nucleotide_index\<close> of \<open>tx\<close> fail with an out-of-range error for the base
  that \<^verbatim>\<open>explode\<close> asks for. Then the step for \<open>tx\<close> adds no probe and no coordinate
  and prints one line, the error followed by the statement; \<^verbatim>\<open>explode\<close> returns
  normally, with the probes of the loop continued over \<open>after\<close>; and these keep every probe
  collected before \<open>tx\<close>.
\<close>

theorem explode_skips_out_of_range:
  assumes "parse statement = Inr parsed"
    and "lookup_gene (gene parsed) (case genome_annotation of None \<Rightarrow> [] | Some a \<Rightarrow> a) =
           before @ tx # after"
    and "nucleotide_index tx (if plus_strand tx then base parsed else base parsed - 2) =
           Inl msg"
    and "st = explode_loop rc repr statement before
                \<lparr>partial_spec = parsed, cached_coordinates = {}, probes = [], stderr = []\<rparr>"
    and "skipped = explode_step rc repr statement tx st"
    and "final = explode_loop rc repr statement after skipped"
  shows "probes skipped = probes st \<and>
         cached_coordinates skipped = cached_coordinates st \<and>
         stderr skipped = stderr st @ [msg @ '' in statement: '' @ repr statement @ [CHR 0x0A]] \<and>
         explode lookup_gene rc repr statement genome_annotation =
           (stderr final, Inr (probes final)) \<and>
         (\<exists>more_probes more_log.
            probes final = probes st @ more_probes \<and>
            stderr final = stderr skipped @ more_log)"
proof -
  have "base (partial_spec st) = base parsed"
    unfolding assms(4) by (simp add: explode_loop_base)
  with assms(3) have "nucleotide_index tx
      (if plus_strand tx then base (partial_spec st) else base (partial_spec st) - 2) = Inl msg"
    by (simp split: if_splits)
  then have step: "skipped =
      st\<lparr>partial_spec :=
           (if plus_strand tx then partial_spec st
            else (partial_spec st)\<lparr>mutation := rc (mutation (partial_spec st))\<rparr>),
         stderr := stderr st @ [msg @ '' in statement: '' @ repr statement @ [CHR 0x0A]]\<rparr>"
    unfolding assms(5) by (rule explode_step_out_of_range)
  have whole: "explode lookup_gene rc repr statement genome_annotation =
      (stderr final, Inr (probes final))"
    unfolding assms(6) assms(5) assms(4)
    by (simp add: explode_def assms(1) assms(2) explode_loop_append Let_def)
  obtain p l where "probes final = probes skipped @ p" "stderr final = stderr skipped @ l"
    unfolding assms(6) using explode_loop_extends by blast
  with step whole show ?thesis by simp
qed

text \<open>
  Three transcripts, the second out of range: one line on the diagnostic stream, and the
  probes of the first and the third.
\<close>

theorem explode_skips_out_of_range_witness:
  "explode example_lookup_gene example_reverse_complement example_repr ''ABC:c.5A>T/20''
       (Some [transcript_NM_1, transcript_NM_2, transcript_NM_3]) =
     ([''base 5 is out of range in statement: '' @ example_repr ''ABC:c.5A>T/20'' @
         [CHR 0x0A]],
      Inr [GeneSnpProbe
             \<lparr>gene = ''ABC'', base = 5, reference = ''A'', mutation = ''T'',
              bases = 20, comment = [],
              chromosome = ''1'', transcript = ''NM_1'', index = 1005\<rparr>,
           GeneSnpProbe
             \<lparr>gene = ''ABC'', base = 5, reference = ''A'', mutation = ''A'',
              bases = 20, comment = [],
              chromosome = ''3'', transcript = ''NM_3'', index = 3003\<rparr>])"
proof -
  have found: "example_lookup_gene
      (gene \<lparr>gene = ''ABC'', base = 5, reference = ''A'', mutation = ''T'',
             bases = 20, comment = []\<rparr>)
      (case Some [transcript_NM_1, transcript_NM_2, transcript_NM_3] of
         None \<Rightarrow> [] | Some a \<Rightarrow> a) =
      [transcript_NM_1] @ transcript_NM_2 # [transcript_NM_3]"
    by (simp add: example_lookup_gene_def)
  have fails: "nucleotide_index transcript_NM_2
      (if plus_strand transcript_NM_2
       then base \<lparr>gene = ''ABC'', base = 5, reference = ''A'', mutation = ''T'',
                  bases = 20, comment = []\<rparr>
       else base \<lparr>gene = ''ABC'', base = 5, reference = ''A'', mutation = ''T'',
                  bases = 20, comment = []\<rparr> - 2) =
      Inl ''base 5 is out of range''"
    by (simp add: transcript_NM_2_def)
  note skip = explode_skips_out_of_range [where lookup_gene = example_lookup_gene
      and rc = example_reverse_complement and repr = example_repr
      and statement = "''ABC:c.5A>T/20''"
      and parsed = "\<lparr>gene = ''ABC'', base = 5, reference = ''A'', mutation = ''T'',
                     bases = 20, comment = []\<rparr>"
      and genome_annotation = "Some [transcript_NM_1, transcript_NM_2, transcript_NM_3]"
      and before = "[transcript_NM_1]" and tx = transcript_NM_2
      and after = "[transcript_NM_3]" and msg = "''base 5 is out of range''",
      OF example_parse found fails refl refl refl]
  from skip example_explode show ?thesis by simp
qed

end
